theory Spec2Isabelle
  imports Main "HOL-Library.Word"
begin

section \<open>The chat orchestrator of the Foundry agent web client (src/App.js)\<close>

text \<open>
  The component \<^verbatim>\<open>App\<close> keeps its conversation in a handful of React state variables and
  changes them from four handlers: \<^verbatim>\<open>sendMessage\<close>, \<^verbatim>\<open>resumeAfterOauthConsent\<close>,
  \<^verbatim>\<open>submitApprovals\<close> and \<^verbatim>\<open>resetChat\<close>, all of which funnel a server reply through
  \<^verbatim>\<open>applyChatResponse\<close>. The state variables become one record, every handler a function
  from that record to the next one, and the outside world (token provider, HTTP endpoint)
  a value that says what it answered.
\<close>

subsection \<open>JavaScript strings and truthiness\<close>

text \<open>
  A JavaScript string is a sequence of 16-bit code units. \<open>js\<close> reads an ASCII literal
  of the source as such a sequence.
\<close>

type_synonym jsstring = "16 word list"

definition js :: "string \<Rightarrow> jsstring" where
  "js s = map of_char s"

text \<open>
  A nullable string is an \<open>option\<close>: \<open>None\<close> stands for \<^verbatim>\<open>null\<close>, \<^verbatim>\<open>undefined\<close> and an
  absent field alike. Only a non-empty string is truthy, so \<^verbatim>\<open>x || null\<close> keeps a
  non-empty string and turns everything else into \<^verbatim>\<open>null\<close>, and \<^verbatim>\<open>x || d\<close> falls back to
  \<open>d\<close> in the same cases.
\<close>

definition truthy :: "jsstring option \<Rightarrow> bool" where
  "truthy x = (case x of None \<Rightarrow> False | Some s \<Rightarrow> s \<noteq> [])"

definition or_null :: "jsstring option \<Rightarrow> jsstring option" where
  "or_null x = (if truthy x then x else None)"

definition or_else :: "jsstring option \<Rightarrow> jsstring \<Rightarrow> jsstring" where
  "or_else x d = (case x of None \<Rightarrow> d | Some s \<Rightarrow> if s = [] then d else s)"

text \<open>
  \<^verbatim>\<open>String.prototype.trim\<close> removes the code units of WhiteSpace and LineTerminator from
  both ends.
\<close>

definition is_space :: "16 word \<Rightarrow> bool" where
  "is_space c = (c \<in> set [0x9, 0xA, 0xB, 0xC, 0xD, 0x20, 0xA0, 0x1680,
                            0x2000, 0x2001, 0x2002, 0x2003, 0x2004, 0x2005, 0x2006,
                            0x2007, 0x2008, 0x2009, 0x200A, 0x2028, 0x2029, 0x202F,
                            0x205F, 0x3000, 0xFEFF])"

definition trim :: "jsstring \<Rightarrow> jsstring" where
  "trim s = rev (dropWhile is_space (rev (dropWhile is_space s)))"

subsection \<open>Data\<close>

datatype role = User | Assistant

record message =
  role :: role
  msg_text :: jsstring

text \<open>
  The arguments of a tool call are arbitrary JSON that the client only displays; numbers
  are kept as the text of their literal.
\<close>

datatype json = JNull | JBool bool | JNumber string | JString jsstring
  | JArray "json list" | JObject "(jsstring \<times> json) list"

record approval_request =
  id_req :: jsstring
  server_label :: jsstring
  tool_name :: jsstring
  arguments :: json

text \<open>
  The body of a reply of \<^verbatim>\<open>POST /chat\<close>, as far as the client reads it. Every field may be
  missing. \<open>detail\<close> and \<open>error_field\<close> (the field \<^verbatim>\<open>error\<close>) are read on a non-2xx reply only.
  A field that is present has the type the endpoint documents: a string, or an array of
  approval requests whose \<^verbatim>\<open>id\<close> is a string.
\<close>

record chat_data =
  status :: "jsstring option"
  consent_link :: "jsstring option"
  response_id :: "jsstring option"
  approval_requests :: "approval_request list option"
  output_text :: "jsstring option"
  detail :: "jsstring option"
  error_field :: "jsstring option"

text \<open>
  The state variables of \<^verbatim>\<open>App\<close> that the chat handlers read or write.
  \<^verbatim>\<open>approvalDecisions\<close> is an object used as a dictionary from request ids to booleans.
\<close>

record session =
  error :: "jsstring option"
  needsConsent :: bool
  accessToken :: "jsstring option"
  agentName :: jsstring
  chatInput :: jsstring
  chatLoading :: bool
  messages :: "message list"
  previousResponseId :: "jsstring option"
  pendingApprovals :: "approval_request list option"
  approvalDecisions :: "jsstring \<rightharpoonup> bool"
  pendingResponseIdForApproval :: "jsstring option"
  oauthConsentLink :: "jsstring option"
  pendingResponseIdForOauth :: "jsstring option"

definition DEFAULT_AGENT_NAME :: jsstring where
  "DEFAULT_AGENT_NAME = js ''MultiToolAgentV1''"

definition initial :: session where
  "initial = \<lparr> error = None, needsConsent = False, accessToken = None,
      agentName = DEFAULT_AGENT_NAME, chatInput = [], chatLoading = False,
      messages = [], previousResponseId = None, pendingApprovals = None,
      approvalDecisions = Map.empty, pendingResponseIdForApproval = None,
      oauthConsentLink = None, pendingResponseIdForOauth = None \<rparr>"

subsection \<open>applyChatResponse\<close>

definition consent_notice :: jsstring where
  "consent_notice =
     js ''OAuth consent required to access the MCP tools. Open the consent link below, complete sign-in, then click ''
     @ [0x201C] @ js ''I completed sign-in'' @ [0x201D] @ js ''.''"

definition no_output :: jsstring where
  "no_output = js ''(no output_text)''"

text \<open>\<^verbatim>\<open>for (const r of data.approval_requests || []) defaults[r.id] = false;\<close>\<close>

fun deny_defaults :: "approval_request list \<Rightarrow> (jsstring \<rightharpoonup> bool) \<Rightarrow> (jsstring \<rightharpoonup> bool)" where
  "deny_defaults [] d = d"
| "deny_defaults (r # rs) d = deny_defaults rs (d(id_req r \<mapsto> False))"

definition applyChatResponse :: "chat_data \<Rightarrow> session \<Rightarrow> session" where
  "applyChatResponse data s =
     (if status data = Some (js ''oauth_consent_required'') then
        s\<lparr> oauthConsentLink := or_null (consent_link data),
           pendingResponseIdForOauth := or_null (response_id data),
           previousResponseId := or_null (response_id data),
           messages := messages s @ [\<lparr> role = Assistant, msg_text = consent_notice \<rparr>] \<rparr>
      else if status data = Some (js ''approval_required'') then
        s\<lparr> pendingApprovals := Some (case approval_requests data of None \<Rightarrow> [] | Some rs \<Rightarrow> rs),
           pendingResponseIdForApproval := or_null (response_id data),
           previousResponseId := or_null (response_id data),
           approvalDecisions :=
             deny_defaults (case approval_requests data of None \<Rightarrow> [] | Some rs \<Rightarrow> rs) Map.empty \<rparr>
      else
        s\<lparr> messages := messages s @
             [\<lparr> role = Assistant,
                msg_text = (let out = or_else (output_text data) [] in
                            if out = [] then no_output else out) \<rparr>],
           previousResponseId := or_null (response_id data),
           pendingApprovals := None,
           pendingResponseIdForApproval := None,
           approvalDecisions := Map.empty,
           oauthConsentLink := None,
           pendingResponseIdForOauth := None \<rparr>)"

subsection \<open>resetChat\<close>

definition resetChat :: "session \<Rightarrow> session" where
  "resetChat s =
     s\<lparr> messages := [], previousResponseId := None, pendingApprovals := None,
        approvalDecisions := Map.empty, pendingResponseIdForApproval := None,
        oauthConsentLink := None, pendingResponseIdForOauth := None, error := None \<rparr>"

subsection \<open>The outside world\<close>

text \<open>
  An exception is an \<^verbatim>\<open>Error\<close> object; \<^verbatim>\<open>e?.message || String(e)\<close> is its message, or its
  name when the message is empty.
\<close>

record js_error =
  err_name :: jsstring
  err_message :: jsstring

definition error_text :: "js_error \<Rightarrow> jsstring" where
  "error_text e = (if err_message e \<noteq> [] then err_message e else err_name e)"

text \<open>
  What \<^verbatim>\<open>tryGetTokenSilent\<close> meets: no signed-in account, a token from
  \<^verbatim>\<open>acquireTokenSilent\<close>, an \<^verbatim>\<open>InteractionRequiredAuthError\<close>, or another exception.
  What \<^verbatim>\<open>fetch\<close> meets: a rejected promise, or a reply with an HTTP status and a body
  (a body that is not JSON reads as \<^verbatim>\<open>{}\<close>, every field missing).
\<close>

datatype silent_token = NoAccount | Acquired jsstring | InteractionRequired | AcquireFailed js_error

datatype fetch_outcome = NetworkFailure js_error | HttpResponse nat chat_data

record backend =
  token_reply :: silent_token
  fetch_reply :: fetch_outcome

record approval_decision =
  approval_request_id :: jsstring
  approve :: bool

text \<open>The JSON body of a request; \<open>None\<close> in \<open>message\<close>, \<open>action\<close> and \<open>approvals\<close> is an absent field.\<close>

record chat_request =
  agent_name :: jsstring
  message :: "jsstring option"
  previous_response_id :: "jsstring option"
  action :: "jsstring option"
  approvals :: "approval_decision list option"

fun decimal :: "nat \<Rightarrow> jsstring" where
  "decimal n = (if n < 10 then [of_nat (48 + n)]
                else decimal (n div 10) @ [of_nat (48 + n mod 10)])"

declare decimal.simps [simp del]

subsection \<open>tryGetTokenSilent and postChat\<close>

definition tryGetTokenSilent :: "silent_token \<Rightarrow> session \<Rightarrow> session \<times> jsstring option" where
  "tryGetTokenSilent t s =
     (case t of
        NoAccount \<Rightarrow> (s, None)
      | Acquired tok \<Rightarrow> (s\<lparr> error := None, accessToken := Some tok, needsConsent := False \<rparr>, Some tok)
      | InteractionRequired \<Rightarrow> (s\<lparr> error := None, needsConsent := True \<rparr>, None)
      | AcquireFailed e \<Rightarrow> (s\<lparr> error := Some (error_text e) \<rparr>, None))"

text \<open>
  \<^verbatim>\<open>postChat\<close> returns \<^verbatim>\<open>{ok: true, data}\<close> or \<^verbatim>\<open>{ok: false, error}\<close>, or throws what
  \<^verbatim>\<open>fetch\<close> threw. The model also returns the bodies handed to \<^verbatim>\<open>fetch\<close>: none when no
  token could be had, the one body otherwise.
\<close>

datatype post_result = PostOk chat_data | PostNotOk jsstring

definition http_ok :: "nat \<Rightarrow> bool" where
  "http_ok code = (200 \<le> code \<and> code \<le> 299)"

definition postChat ::
  "backend \<Rightarrow> chat_request \<Rightarrow> session \<Rightarrow> session \<times> (js_error + post_result) \<times> chat_request list" where
  "postChat w body s =
     (let (s1, token) = (if truthy (accessToken s) then (s, accessToken s)
                         else tryGetTokenSilent (token_reply w) s)
      in if \<not> truthy token
         then (s1, Inr (PostNotOk (js ''No access token (consent required?)'')), [])
         else (case fetch_reply w of
                 NetworkFailure e \<Rightarrow> (s1, Inl e, [body])
               | HttpResponse code data \<Rightarrow>
                   if \<not> http_ok code
                   then (s1, Inr (PostNotOk
                           (or_else (detail data)
                              (or_else (error_field data) (js ''HTTP '' @ decimal code)))), [body])
                   else (s1, Inr (PostOk data), [body])))"

subsection \<open>The three requesting handlers\<close>

text \<open>
  Each handler runs to its \<^verbatim>\<open>await postChat(...)\<close>, and goes on when the reply is there:
  \<^verbatim>\<open>if (!ok) throw new Error(err || "<what failed>"); applyChatResponse(data);\<close> with
  \<^verbatim>\<open>catch (e) { setError(e?.message || String(e)); } finally { setChatLoading(false); }\<close>.
  That tail is the same in the three handlers but for the text of the fallback message.
  The first half of a handler is its \<open>_begin\<close> function: \<open>None\<close> is the early
  \<^verbatim>\<open>return\<close>, otherwise the state at the \<^verbatim>\<open>await\<close> and the body given to \<^verbatim>\<open>postChat\<close>.
\<close>

definition afterPostChat :: "jsstring \<Rightarrow> (js_error + post_result) \<Rightarrow> session \<Rightarrow> session" where
  "afterPostChat fallback r s =
     (case r of
        Inr (PostOk data) \<Rightarrow> (applyChatResponse data s)\<lparr> chatLoading := False \<rparr>
      | Inr (PostNotOk err) \<Rightarrow> s\<lparr> error := Some (or_else (Some err) fallback), chatLoading := False \<rparr>
      | Inl e \<Rightarrow> s\<lparr> error := Some (error_text e), chatLoading := False \<rparr>)"

definition awaitPostChat ::
  "jsstring \<Rightarrow> backend \<Rightarrow> chat_request \<Rightarrow> session \<Rightarrow> session \<times> chat_request list" where
  "awaitPostChat fallback w body s =
     (let (s1, r, sent) = postChat w body s in (afterPostChat fallback r s1, sent))"

definition sendMessage_begin :: "session \<Rightarrow> (session \<times> chat_request) option" where
  "sendMessage_begin s =
     (let text = trim (chatInput s) in
      if text = [] \<or> chatLoading s then None
      else Some
        (s\<lparr> error := None, chatInput := [], chatLoading := True,
            messages := messages s @ [\<lparr> role = User, msg_text = text \<rparr>] \<rparr>,
         \<lparr> agent_name = agentName s, message = Some text,
           previous_response_id = previousResponseId s, action = None, approvals = None \<rparr>))"

definition sendMessage :: "backend \<Rightarrow> session \<Rightarrow> session \<times> chat_request list" where
  "sendMessage w s =
     (case sendMessage_begin s of
        None \<Rightarrow> (s, [])
      | Some (s1, body) \<Rightarrow> awaitPostChat (js ''Chat request failed'') w body s1)"

definition resumeAfterOauthConsent_begin :: "session \<Rightarrow> (session \<times> chat_request) option" where
  "resumeAfterOauthConsent_begin s =
     (if \<not> truthy (pendingResponseIdForOauth s) \<or> chatLoading s then None
      else Some
        (s\<lparr> error := None, chatLoading := True \<rparr>,
         \<lparr> agent_name = agentName s, message = None,
           previous_response_id = pendingResponseIdForOauth s,
           action = Some (js ''continue''), approvals = None \<rparr>))"

definition resumeAfterOauthConsent :: "backend \<Rightarrow> session \<Rightarrow> session \<times> chat_request list" where
  "resumeAfterOauthConsent w s =
     (case resumeAfterOauthConsent_begin s of
        None \<Rightarrow> (s, [])
      | Some (s1, body) \<Rightarrow> awaitPostChat (js ''Continue after OAuth consent failed'') w body s1)"

text \<open>
  \<^verbatim>\<open>!pendingApprovals?.length\<close> holds for \<^verbatim>\<open>null\<close> and for the empty array;
  \<^verbatim>\<open>!!approvalDecisions[r.id]\<close> is true only for a key that is set to \<^verbatim>\<open>true\<close>.
\<close>

definition no_pending :: "approval_request list option \<Rightarrow> bool" where
  "no_pending p = (case p of None \<Rightarrow> True | Some rs \<Rightarrow> rs = [])"

definition decide :: "(jsstring \<rightharpoonup> bool) \<Rightarrow> approval_request \<Rightarrow> approval_decision" where
  "decide d r = \<lparr> approval_request_id = id_req r, approve = (d (id_req r) = Some True) \<rparr>"

definition submitApprovals_begin :: "session \<Rightarrow> (session \<times> chat_request) option" where
  "submitApprovals_begin s =
     (case pendingApprovals s of
        None \<Rightarrow> None
      | Some rs \<Rightarrow>
          if rs = [] \<or> \<not> truthy (pendingResponseIdForApproval s) \<or> chatLoading s then None
          else Some
            (s\<lparr> error := None, chatLoading := True \<rparr>,
             \<lparr> agent_name = agentName s, message = None,
               previous_response_id = pendingResponseIdForApproval s, action = None,
               approvals = Some (map (decide (approvalDecisions s)) rs) \<rparr>))"

definition submitApprovals :: "backend \<Rightarrow> session \<Rightarrow> session \<times> chat_request list" where
  "submitApprovals w s =
     (case submitApprovals_begin s of
        None \<Rightarrow> (s, [])
      | Some (s1, body) \<Rightarrow> awaitPostChat (js ''Approval submit failed'') w body s1)"

subsection \<open>The rendered controls\<close>

text \<open>
  What the user can do is what the JSX renders. The text input carries
  \<^verbatim>\<open>disabled={chatLoading || needsConsent || !!oauthConsentLink}\<close> and calls \<^verbatim>\<open>sendMessage\<close> on
  Enter; the Send button is disabled in the same cases and when \<^verbatim>\<open>!chatInput.trim()\<close>. The
  consent panel is rendered when \<^verbatim>\<open>oauthConsentLink\<close> is truthy and the approval panel when
  \<^verbatim>\<open>pendingApprovals?.length > 0\<close>; their buttons and the New chat button carry
  \<^verbatim>\<open>disabled={chatLoading}\<close>, the approval checkboxes carry no \<^verbatim>\<open>disabled\<close>.
\<close>

definition inputDisabled :: "session \<Rightarrow> bool" where
  "inputDisabled s = (chatLoading s \<or> needsConsent s \<or> truthy (oauthConsentLink s))"

definition sendDisabled :: "session \<Rightarrow> bool" where
  "sendDisabled s = (chatLoading s \<or> needsConsent s \<or> truthy (oauthConsentLink s) \<or> trim (chatInput s) = [])"

definition consentPanelShown :: "session \<Rightarrow> bool" where
  "consentPanelShown s = truthy (oauthConsentLink s)"

definition approvalPanelShown :: "session \<Rightarrow> bool" where
  "approvalPanelShown s = (\<not> no_pending (pendingApprovals s))"

text \<open>
  The page between two events: the state variables, the call of \<^verbatim>\<open>postChat\<close> that has not
  returned yet (with the fallback message of the handler that waits for it), and the bodies
  handed to \<^verbatim>\<open>fetch\<close> so far. A handler runs on the state of the last render. The event
  \<open>Reply\<close> is the pending call of \<^verbatim>\<open>postChat\<close> running to its end, token and exchange
  together, followed by the rest of the waiting handler. Signing out, which leaves the page,
  is not an event.
\<close>

record app =
  sess :: session
  inflight :: "(jsstring \<times> chat_request) option"
  fetched :: "chat_request list"

datatype event =
    TypeInput jsstring
  | PressEnter
  | ClickSend
  | ClickResume
  | SetApproval jsstring bool
  | ClickDenyAll
  | ClickSubmitApprovals
  | ClickNewChat
  | Reply backend

definition launch :: "jsstring \<Rightarrow> (session \<times> chat_request) option \<Rightarrow> app \<Rightarrow> app" where
  "launch fallback r a =
     (case r of
        None \<Rightarrow> a
      | Some (s1, body) \<Rightarrow> a\<lparr> sess := s1, inflight := Some (fallback, body) \<rparr>)"

definition pending_ids :: "session \<Rightarrow> jsstring list" where
  "pending_ids s = (case pendingApprovals s of None \<Rightarrow> [] | Some rs \<Rightarrow> map id_req rs)"

definition step :: "event \<Rightarrow> app \<Rightarrow> app" where
  "step e a =
     (let s = sess a in
      case e of
        TypeInput v \<Rightarrow> if inputDisabled s then a else a\<lparr> sess := s\<lparr> chatInput := v \<rparr> \<rparr>
      | PressEnter \<Rightarrow>
          if inputDisabled s then a else launch (js ''Chat request failed'') (sendMessage_begin s) a
      | ClickSend \<Rightarrow>
          if sendDisabled s then a else launch (js ''Chat request failed'') (sendMessage_begin s) a
      | ClickResume \<Rightarrow>
          if \<not> consentPanelShown s \<or> chatLoading s then a
          else launch (js ''Continue after OAuth consent failed'') (resumeAfterOauthConsent_begin s) a
      | SetApproval i b \<Rightarrow>
          if approvalPanelShown s \<and> i \<in> set (pending_ids s)
          then a\<lparr> sess := s\<lparr> approvalDecisions := (approvalDecisions s)(i \<mapsto> b) \<rparr> \<rparr>
          else a
      | ClickDenyAll \<Rightarrow>
          if \<not> approvalPanelShown s \<or> chatLoading s then a
          else a\<lparr> sess := s\<lparr> approvalDecisions :=
                   deny_defaults (case pendingApprovals s of None \<Rightarrow> [] | Some rs \<Rightarrow> rs) Map.empty \<rparr> \<rparr>
      | ClickSubmitApprovals \<Rightarrow>
          if \<not> approvalPanelShown s \<or> chatLoading s then a
          else launch (js ''Approval submit failed'') (submitApprovals_begin s) a
      | ClickNewChat \<Rightarrow> if chatLoading s then a else a\<lparr> sess := resetChat s \<rparr>
      | Reply w \<Rightarrow>
          (case inflight a of
             None \<Rightarrow> a
           | Some (fallback, body) \<Rightarrow>
               (let (s1, sent) = awaitPostChat fallback w body s
                in \<lparr> sess = s1, inflight = None, fetched = fetched a @ sent \<rparr>)))"

fun run :: "event list \<Rightarrow> app \<Rightarrow> app" where
  "run [] a = a"
| "run (e # es) a = run es (step e a)"

definition start :: app where
  "start = \<lparr> sess = initial, inflight = None, fetched = [] \<rparr>"

subsection \<open>Sample replies and sample states\<close>

definition final_reply :: "jsstring option \<Rightarrow> jsstring option \<Rightarrow> chat_data" where
  "final_reply rid out =
     \<lparr> status = None, consent_link = None, response_id = rid, approval_requests = None,
       output_text = out, detail = None, error_field = None \<rparr>"

definition consent_reply :: "jsstring option \<Rightarrow> jsstring option \<Rightarrow> chat_data" where
  "consent_reply rid link =
     \<lparr> status = Some (js ''oauth_consent_required''), consent_link = link, response_id = rid,
       approval_requests = None, output_text = None, detail = None, error_field = None \<rparr>"

definition approval_reply :: "jsstring option \<Rightarrow> approval_request list \<Rightarrow> chat_data" where
  "approval_reply rid rs =
     \<lparr> status = Some (js ''approval_required''), consent_link = None, response_id = rid,
       approval_requests = Some rs, output_text = None, detail = None, error_field = None \<rparr>"

definition jira_search :: approval_request where
  "jira_search =
     \<lparr> id_req = js ''mcpr_1'', server_label = js ''jira'', tool_name = js ''jira_search'',
       arguments = JObject [] \<rparr>"

definition answers :: "chat_data \<Rightarrow> backend" where
  "answers d = \<lparr> token_reply = Acquired (js ''tok''), fetch_reply = HttpResponse 200 d \<rparr>"

definition signed_in :: session where
  "signed_in = initial\<lparr> accessToken := Some (js ''tok'') \<rparr>"



subsection \<open>A failed exchange\<close>



section \<open>Properties\<close>

subsection \<open>Auxiliary facts\<close>

lemma status_distinct: "js ''oauth_consent_required'' \<noteq> js ''approval_required''"
  by (simp add: js_def)

lemma trim_empty_iff: "trim s = [] \<longleftrightarrow> (\<forall>c\<in>set s. is_space c)"
proof
  assume "trim s = []"
  then have "\<forall>c\<in>set (dropWhile is_space s). is_space c"
    by (simp add: trim_def)
  then have "dropWhile is_space s = []"
    using hd_dropWhile [of is_space s] hd_in_set [of "dropWhile is_space s"] by blast
  then show "\<forall>c\<in>set s. is_space c"
    by simp
next
  assume "\<forall>c\<in>set s. is_space c"
  then have "dropWhile is_space s = []"
    by simp
  then show "trim s = []"
    unfolding trim_def by (simp only: rev.simps dropWhile.simps)
qed





lemma postChat_sent:
  "snd (snd (postChat w body s)) = [] \<or> snd (snd (postChat w body s)) = [body]"
  by (simp add: postChat_def Let_def split: prod.splits fetch_outcome.splits)

lemma postChat_sent_token:
  "truthy (accessToken s) \<Longrightarrow> snd (snd (postChat w body s)) = [body]"
  by (simp add: postChat_def split: fetch_outcome.splits)

lemma postChat_messages: "messages (fst (postChat w body s)) = messages s"
  by (cases "token_reply w")
     (simp_all add: postChat_def tryGetTokenSilent_def Let_def split: fetch_outcome.splits)

lemma afterPostChat_messages: "\<exists>rest. messages (afterPostChat fb r s) = messages s @ rest"
  by (simp add: afterPostChat_def applyChatResponse_def split: sum.splits post_result.splits)

lemma awaitPostChat_sent: "snd (awaitPostChat fb w body s) = snd (snd (postChat w body s))"
  by (simp add: awaitPostChat_def split: prod.splits)

lemma awaitPostChat_messages: "\<exists>rest. messages (fst (awaitPostChat fb w body s)) = messages s @ rest"
proof -
  obtain s1 r sent where p: "postChat w body s = (s1, r, sent)"
    by (cases "postChat w body s") auto
  then have "messages s1 = messages s"
    using postChat_messages [of w body s] by simp
  moreover obtain rest where "messages (afterPostChat fb r s1) = messages s1 @ rest"
    using afterPostChat_messages by blast
  ultimately show ?thesis
    using p by (simp add: awaitPostChat_def)
qed

text \<open>The definitions that a run on concrete events unfolds.\<close>

lemmas eval_defs = step_def launch_def start_def initial_def inputDisabled_def sendDisabled_def
  consentPanelShown_def approvalPanelShown_def no_pending_def pending_ids_def
  sendMessage_begin_def resumeAfterOauthConsent_begin_def submitApprovals_begin_def
  awaitPostChat_def postChat_def afterPostChat_def tryGetTokenSilent_def applyChatResponse_def
  resetChat_def answers_def consent_reply_def approval_reply_def final_reply_def jira_search_def
  truthy_def or_null_def or_else_def http_ok_def trim_def is_space_def js_def decide_def
  DEFAULT_AGENT_NAME_def signed_in_def Let_def



subsection \<open>The chain token\<close>

text \<open>
  C1, as stated, fails: a reply without \<^verbatim>\<open>response_id\<close> does not leave the stored
  \<^verbatim>\<open>previousResponseId\<close> alone. Here the session holds \<^verbatim>\<open>resp_1\<close>, a final reply without an
  identifier is applied, and the stored value is \<^verbatim>\<open>null\<close> afterwards.
\<close>

theorem chain_token_lost_on_absent_id:
  "previousResponseId (signed_in\<lparr> previousResponseId := Some (js ''resp_1'') \<rparr>) = Some (js ''resp_1'')
   \<and> response_id (final_reply None (Some (js ''done''))) = None
   \<and> previousResponseId (applyChatResponse (final_reply None (Some (js ''done'')))
        (signed_in\<lparr> previousResponseId := Some (js ''resp_1'') \<rparr>)) = None"
  by (simp add: applyChatResponse_def final_reply_def or_null_def truthy_def)

text \<open>
  C1, amended: in each of the three branches \<^verbatim>\<open>applyChatResponse\<close> stores
  \<^verbatim>\<open>data.response_id || null\<close>: a non-empty identifier is stored as it is, and a reply with
  no identifier (or an empty one) sets the stored value to \<^verbatim>\<open>null\<close>.
\<close>

theorem chain_token_is_response_id_or_null:
  "previousResponseId (applyChatResponse d s) =
     (case response_id d of None \<Rightarrow> None | Some r \<Rightarrow> if r = [] then None else Some r)"
  by (simp add: applyChatResponse_def or_null_def truthy_def split: option.splits)

subsection \<open>Classification of a reply\<close>

text \<open>
  C5: \<^verbatim>\<open>applyChatResponse\<close> takes the consent branch when the status says so, whatever else
  the reply carries (an approval batch in it is not stored: the approval state stays as it
  was); otherwise the approval branch when the status says so (the transcript and the consent
  state stay as they were); otherwise the final branch, which appends one message and clears
  both.
\<close>

theorem classification_priority:
  "(status d = Some (js ''oauth_consent_required'') \<longrightarrow>
      applyChatResponse d s =
        s\<lparr> oauthConsentLink := or_null (consent_link d),
           pendingResponseIdForOauth := or_null (response_id d),
           previousResponseId := or_null (response_id d),
           messages := messages s @ [\<lparr> role = Assistant, msg_text = consent_notice \<rparr>] \<rparr>
      \<and> pendingApprovals (applyChatResponse d s) = pendingApprovals s
      \<and> approvalDecisions (applyChatResponse d s) = approvalDecisions s
      \<and> pendingResponseIdForApproval (applyChatResponse d s) = pendingResponseIdForApproval s)
 \<and> (status d = Some (js ''approval_required'') \<longrightarrow>
      messages (applyChatResponse d s) = messages s
      \<and> oauthConsentLink (applyChatResponse d s) = oauthConsentLink s
      \<and> pendingResponseIdForOauth (applyChatResponse d s) = pendingResponseIdForOauth s
      \<and> pendingApprovals (applyChatResponse d s) =
          Some (case approval_requests d of None \<Rightarrow> [] | Some rs \<Rightarrow> rs))
 \<and> (status d \<noteq> Some (js ''oauth_consent_required'') \<and> status d \<noteq> Some (js ''approval_required'') \<longrightarrow>
      length (messages (applyChatResponse d s)) = Suc (length (messages s))
      \<and> oauthConsentLink (applyChatResponse d s) = None
      \<and> pendingApprovals (applyChatResponse d s) = None)"
  using status_distinct by (simp add: applyChatResponse_def)

theorem classification_priority_witness:
  "pendingApprovals (applyChatResponse
      ((consent_reply (Some (js ''resp_1'')) (Some (js ''https://consent'')))
         \<lparr> approval_requests := Some [jira_search] \<rparr>) signed_in) = None
   \<and> oauthConsentLink (applyChatResponse
      ((consent_reply (Some (js ''resp_1'')) (Some (js ''https://consent'')))
         \<lparr> approval_requests := Some [jira_search] \<rparr>) signed_in) = Some (js ''https://consent'')
   \<and> pendingApprovals (applyChatResponse (approval_reply (Some (js ''resp_1'')) [jira_search]) signed_in)
        = Some [jira_search]
   \<and> messages (applyChatResponse (approval_reply (Some (js ''resp_1'')) [jira_search]) signed_in) = []
   \<and> length (messages (applyChatResponse (final_reply (Some (js ''resp_1'')) (Some (js ''done''))) signed_in))
        = 1"
  using classification_priority
          [of "(consent_reply (Some (js ''resp_1'')) (Some (js ''https://consent'')))
                 \<lparr> approval_requests := Some [jira_search] \<rparr>" signed_in]
        classification_priority [of "approval_reply (Some (js ''resp_1'')) [jira_search]" signed_in]
        classification_priority [of "final_reply (Some (js ''resp_1'')) (Some (js ''done''))" signed_in]
  by (simp add: consent_reply_def approval_reply_def final_reply_def signed_in_def initial_def
        or_null_def truthy_def js_def)

subsection \<open>Final output\<close>

text \<open>
  C6: a reply that is neither consent-required nor approval-required appends one assistant
  message, whose text is \<^verbatim>\<open>output_text\<close>, or the placeholder \<^verbatim>\<open>(no output_text)\<close> when
  \<^verbatim>\<open>output_text\<close> is missing or empty, so the appended text is never empty; the pending
  batch, the decisions, the consent link and both pending identifiers are cleared.
\<close>

theorem final_output_appends_and_clears:
  assumes "status d \<noteq> Some (js ''oauth_consent_required'')"
      and "status d \<noteq> Some (js ''approval_required'')"
  shows "messages (applyChatResponse d s) =
           messages s @ [\<lparr> role = Assistant,
              msg_text = (case output_text d of None \<Rightarrow> js ''(no output_text)''
                          | Some t \<Rightarrow> if t = [] then js ''(no output_text)'' else t) \<rparr>]
       \<and> msg_text (last (messages (applyChatResponse d s))) \<noteq> []
       \<and> pendingApprovals (applyChatResponse d s) = None
       \<and> approvalDecisions (applyChatResponse d s) = Map.empty
       \<and> oauthConsentLink (applyChatResponse d s) = None
       \<and> pendingResponseIdForApproval (applyChatResponse d s) = None
       \<and> pendingResponseIdForOauth (applyChatResponse d s) = None"
  using assms
  by (simp add: applyChatResponse_def or_else_def no_output_def js_def Let_def split: option.splits)

theorem final_output_appends_and_clears_witness:
  "messages (applyChatResponse (final_reply (Some (js ''resp_2'')) None)
       (applyChatResponse (approval_reply (Some (js ''resp_1'')) [jira_search]) signed_in))
     = [\<lparr> role = Assistant, msg_text = js ''(no output_text)'' \<rparr>]
   \<and> pendingApprovals (applyChatResponse (final_reply (Some (js ''resp_2'')) None)
       (applyChatResponse (approval_reply (Some (js ''resp_1'')) [jira_search]) signed_in)) = None"
  using final_output_appends_and_clears [of "final_reply (Some (js ''resp_2'')) None"
      "applyChatResponse (approval_reply (Some (js ''resp_1'')) [jira_search]) signed_in"]
  by (simp add: final_reply_def approval_reply_def applyChatResponse_def signed_in_def initial_def js_def)

subsection \<open>Blank input and a request in flight\<close>

text \<open>
  C10: with chat input that trims to nothing (that is, made of white space only) or with
  \<^verbatim>\<open>chatLoading\<close> set, \<^verbatim>\<open>sendMessage\<close> returns at once: the state is the same and nothing is
  sent. Otherwise the user message it appends, and the \<^verbatim>\<open>message\<close> of the body it hands to
  \<^verbatim>\<open>postChat\<close>, are the trimmed input; that body is what goes to \<^verbatim>\<open>fetch\<close> (always so when
  an access token is held).
\<close>

theorem blank_or_busy_send_is_noop:
  "(trim (chatInput s) = [] \<or> chatLoading s \<longrightarrow> sendMessage w s = (s, []))
 \<and> (trim (chatInput s) = [] \<longleftrightarrow> (\<forall>c\<in>set (chatInput s). is_space c))
 \<and> (trim (chatInput s) \<noteq> [] \<and> \<not> chatLoading s \<longrightarrow>
      (\<exists>rest. messages (fst (sendMessage w s)) =
          messages s @ \<lparr> role = User, msg_text = trim (chatInput s) \<rparr> # rest)
      \<and> sendMessage_begin s = Some
          (s\<lparr> error := None, chatInput := [], chatLoading := True,
              messages := messages s @ [\<lparr> role = User, msg_text = trim (chatInput s) \<rparr>] \<rparr>,
           \<lparr> agent_name = agentName s, message = Some (trim (chatInput s)),
             previous_response_id = previousResponseId s, action = None, approvals = None \<rparr>)
      \<and> (snd (sendMessage w s) = [] \<or>
         snd (sendMessage w s) =
           [\<lparr> agent_name = agentName s, message = Some (trim (chatInput s)),
              previous_response_id = previousResponseId s, action = None, approvals = None \<rparr>])
      \<and> (truthy (accessToken s) \<longrightarrow> snd (sendMessage w s) \<noteq> []))"
proof -
  let ?s1 = "s\<lparr> error := None, chatInput := [], chatLoading := True,
              messages := messages s @ [\<lparr> role = User, msg_text = trim (chatInput s) \<rparr>] \<rparr>"
  let ?body = "\<lparr> agent_name = agentName s, message = Some (trim (chatInput s)),
             previous_response_id = previousResponseId s, action = None, approvals = None \<rparr>"
  let ?fb = "js ''Chat request failed''"
  have noop: "sendMessage w s = (s, [])" if "trim (chatInput s) = [] \<or> chatLoading s"
    using that by (auto simp: sendMessage_def sendMessage_begin_def Let_def)
  have blank: "trim (chatInput s) = [] \<longleftrightarrow> (\<forall>c\<in>set (chatInput s). is_space c)"
    by (rule trim_empty_iff)
  have go: "sendMessage_begin s = Some (?s1, ?body) \<and> sendMessage w s = awaitPostChat ?fb w ?body ?s1"
    if "trim (chatInput s) \<noteq> [] \<and> \<not> chatLoading s"
    using that by (simp add: sendMessage_def sendMessage_begin_def Let_def)
  have transcript: "\<exists>rest. messages (fst (awaitPostChat ?fb w ?body ?s1)) =
          messages s @ \<lparr> role = User, msg_text = trim (chatInput s) \<rparr> # rest"
    using awaitPostChat_messages [of ?fb w ?body ?s1] by simp
  have sent: "snd (awaitPostChat ?fb w ?body ?s1) = [] \<or> snd (awaitPostChat ?fb w ?body ?s1) = [?body]"
    using postChat_sent [of w ?body ?s1] by (simp add: awaitPostChat_sent)
  have held: "snd (awaitPostChat ?fb w ?body ?s1) \<noteq> []" if "truthy (accessToken s)"
    using that postChat_sent_token [of ?s1 w ?body] by (simp add: awaitPostChat_sent)
  from noop blank go transcript sent held show ?thesis
    by simp
qed

theorem blank_or_busy_send_is_noop_witness:
  "sendMessage (answers (final_reply (Some (js ''resp_1'')) (Some (js ''done''))))
       (signed_in\<lparr> chatInput := [0x20, 0x9, 0xA0] \<rparr>)
     = (signed_in\<lparr> chatInput := [0x20, 0x9, 0xA0] \<rparr>, [])
   \<and> snd (sendMessage (answers (final_reply (Some (js ''resp_1'')) (Some (js ''done''))))
       (signed_in\<lparr> chatInput := js '' hi  '' \<rparr>))
     = [\<lparr> agent_name = DEFAULT_AGENT_NAME, message = Some (js ''hi''), previous_response_id = None,
          action = None, approvals = None \<rparr>]"
  using blank_or_busy_send_is_noop
          [of "signed_in\<lparr> chatInput := [0x20, 0x9, 0xA0] \<rparr>"
              "answers (final_reply (Some (js ''resp_1'')) (Some (js ''done'')))"]
        blank_or_busy_send_is_noop
          [of "signed_in\<lparr> chatInput := js '' hi  '' \<rparr>"
              "answers (final_reply (Some (js ''resp_1'')) (Some (js ''done'')))"]
  by (auto simp: signed_in_def initial_def trim_def is_space_def js_def truthy_def)

subsection \<open>A failed send\<close>



subsection \<open>Approval batches\<close>



text \<open>
  C4, as stated, fails: a reply that asks for approvals with an empty batch leaves the
  session with zero pending items and a pending response identifier, and \<^verbatim>\<open>submitApprovals\<close>
  called there sends nothing.
\<close>

theorem empty_batch_sends_nothing:
  "pendingApprovals (applyChatResponse (approval_reply (Some (js ''resp_1'')) []) signed_in) = Some []
   \<and> pendingResponseIdForApproval (applyChatResponse (approval_reply (Some (js ''resp_1'')) []) signed_in)
       = Some (js ''resp_1'')
   \<and> chatLoading (applyChatResponse (approval_reply (Some (js ''resp_1'')) []) signed_in) = False
   \<and> snd (submitApprovals (answers (final_reply (Some (js ''resp_2'')) (Some (js ''done''))))
        (applyChatResponse (approval_reply (Some (js ''resp_1'')) []) signed_in)) = []"
  by (simp add: submitApprovals_def submitApprovals_begin_def applyChatResponse_def approval_reply_def
        signed_in_def initial_def or_null_def truthy_def js_def)

text \<open>
  C4, amended: with no pending batch or a batch of zero items, \<^verbatim>\<open>submitApprovals\<close> returns
  at its guard \<^verbatim>\<open>!pendingApprovals?.length\<close>: no body is built, nothing is sent, the state
  is unchanged. The approval panel with its submit button is not rendered either, so a click
  cannot reach the handler.
\<close>

theorem submit_without_items_is_noop:
  assumes "pendingApprovals (sess a) = None \<or> pendingApprovals (sess a) = Some []"
  shows "submitApprovals_begin (sess a) = None
       \<and> submitApprovals w (sess a) = (sess a, [])
       \<and> step ClickSubmitApprovals a = a"
proof -
  have guard: "submitApprovals_begin (sess a) = None"
    using assms by (auto simp: submitApprovals_begin_def)
  have "no_pending (pendingApprovals (sess a))"
    using assms by (auto simp: no_pending_def)
  then have hidden: "step ClickSubmitApprovals a = a"
    by (simp add: step_def approvalPanelShown_def)
  from guard hidden show ?thesis
    by (simp add: submitApprovals_def)
qed

theorem submit_without_items_is_noop_witness:
  "submitApprovals (answers (final_reply (Some (js ''resp_2'')) (Some (js ''done''))))
        (applyChatResponse (approval_reply (Some (js ''resp_1'')) []) signed_in)
     = (applyChatResponse (approval_reply (Some (js ''resp_1'')) []) signed_in, [])"
  using submit_without_items_is_noop
          [of "\<lparr> sess = applyChatResponse (approval_reply (Some (js ''resp_1'')) []) signed_in,
                 inflight = None, fetched = [] \<rparr>"
              "answers (final_reply (Some (js ''resp_2'')) (Some (js ''done'')))"]
  by (simp add: applyChatResponse_def approval_reply_def js_def)

subsection \<open>The two blocking panels\<close>

text \<open>
  C2 does not hold of the code. The user sends a message, the agent asks for OAuth consent,
  the user clicks \<^emph>\<open>I completed sign-in\<close>, and the agent then asks for an approval. The
  approval branch of \<^verbatim>\<open>applyChatResponse\<close> stores the batch and does not clear
  \<^verbatim>\<open>oauthConsentLink\<close> (only the final branch clears it), so the consent link is live and the
  batch is pending at once.
\<close>

theorem consent_and_approvals_both_active:
  "oauthConsentLink (sess (run
      [TypeInput (js ''hi''), ClickSend,
       Reply (answers (consent_reply (Some (js ''resp_1'')) (Some (js ''https://consent'')))),
       ClickResume,
       Reply (answers (approval_reply (Some (js ''resp_2'')) [jira_search]))] start))
     = Some (js ''https://consent'')
   \<and> pendingApprovals (sess (run
      [TypeInput (js ''hi''), ClickSend,
       Reply (answers (consent_reply (Some (js ''resp_1'')) (Some (js ''https://consent'')))),
       ClickResume,
       Reply (answers (approval_reply (Some (js ''resp_2'')) [jira_search]))] start))
     = Some [jira_search]"
  by (simp add: eval_defs)

subsection \<open>Chat input during a detour\<close>




subsection \<open>Reset and late replies\<close>




end
